theory Spec2Isabelle
  imports Main "HOL-Library.Char_ord" "HOL-Library.List_Lexorder"
begin

section \<open>Data model of the w11tng network manager\<close>

text \<open>
  The development embeds \<^verbatim>\<open>src/w11tng/networkmanager.cpp\<close>. Headers are not part of
  the sources at hand, so enumerations and the per-peer record are declared here with the
  members the \<^verbatim>\<open>.cpp\<close> file uses.
\<close>

text \<open>
  Modelled from the spec: the enumeration \<^verbatim>\<open>mcs::NetworkDeviceState\<close> (declared in a
  header that is not among the sources). The spec lists Disconnected, Association,
  Configuration, Connected and Failure; the code names exactly these five constants.
\<close>

datatype NetworkDeviceState =
  kDisconnected | kAssociation | kConfiguration | kConnected | kFailure

text \<open>
  Modelled from the spec: \<^verbatim>\<open>NetworkManager::Capability\<close>, a set over Source and Sink.
\<close>

datatype Capability = kSource | kSink

text \<open>
  Modelled from the spec: \<^verbatim>\<open>DeviceType\<close> of the WFD information element (declared in
  \<^verbatim>\<open>informationelement.h\<close>, not among the sources). The spec names PrimarySink, Source,
  DualRole and Undefined.
\<close>

datatype DeviceType = kSource | kPrimarySink | kDualRole | kUndefined

text \<open>
  Modelled from the spec: \<^verbatim>\<open>MiracastMode\<close>, the argument of the private driver command;
  the code uses \<^verbatim>\<open>MiracastMode::Off\<close> and \<^verbatim>\<open>MiracastMode::Source\<close>.
\<close>

datatype MiracastMode = Off | Source

type_synonym IpV4Address = string

text \<open>
  Modelled from the spec: the per-peer record \<^verbatim>\<open>w11tng::NetworkDevice\<close> (address, object
  path, state, role, assigned IP). The fields carry the names of the accessors the manager
  calls: \<^verbatim>\<open>Address()\<close>, \<^verbatim>\<open>ObjectPath()\<close>, \<^verbatim>\<open>State()\<close>/\<^verbatim>\<open>SetState\<close>,
  \<^verbatim>\<open>Role()\<close>/\<^verbatim>\<open>SetRole\<close>, \<^verbatim>\<open>SetIpV4Address\<close>.
\<close>

record NetworkDevice =
  Address :: string
  ObjectPath :: string
  State :: NetworkDeviceState
  Role :: string
  IpV4Address :: IpV4Address

text \<open>
  Calls that leave the manager (to the P2P device stub, the group's device stub, the
  manager stub, the driver and the upstream delegate) are recorded, in order, in a log.
  Device objects are named by their reference, interface objects by their object path.
\<close>

datatype action =
    P2P_Find nat
  | P2P_StopFind
  | P2P_Connect string
  | P2P_Cancel
  | Group_Disconnect string
  | SendDriverPrivateCommand string MiracastMode
  | SetWFDIEs "DeviceType option" bool nat nat
  | Manager_CreateInterface string
  | InterfaceSelector_Process
  | Delegate_OnDeviceStateChanged nat
  | Delegate_OnDeviceLost nat
  | Delegate_OnDeviceFound nat
  | Delegate_OnDeviceChanged nat
  | Delegate_OnChanged

text \<open>
  A null \<^verbatim>\<open>shared_ptr\<close> (or raw pointer) that the code dereferences is undefined
  behaviour in C++; the model makes it the error value \<open>NullDeref\<close>.
\<close>

datatype error = NullDeref

definition and_then :: "error + 'a \<Rightarrow> ('a \<Rightarrow> error + 'b) \<Rightarrow> error + 'b" where
  "and_then m f = (case m of Inl e \<Rightarrow> Inl e | Inr x \<Rightarrow> f x)"

text \<open>
  The members of \<^verbatim>\<open>NetworkManager\<close>, without the trailing underscore of the C++ names.
  Device objects are shared (\<^verbatim>\<open>shared_ptr\<close>) between the registry \<open>devices\<close> and
  \<open>current_device\<close>, so they live in a store \<open>heap\<close> and are named by reference; the null
  pointer is \<open>None\<close>. Smart pointers to stub objects are \<open>None\<close> when null and carry the
  object path (for the DHCP objects: the interface) they were created with.
  \<open>devices\<close> is the \<^verbatim>\<open>std::map\<close> from object path to device, kept in key order, which
  is the order \<^verbatim>\<open>FindDevice\<close> iterates in.
  \<open>timeout_sources\<close> and \<open>next_source_id\<close> are the GLib main loop's pending timeout
  sources and its source-id counter.
\<close>

record NetworkManager =
  heap :: "nat \<Rightarrow> NetworkDevice"
  next_ref :: nat
  devices :: "(string \<times> nat) list"
  delegate :: bool
  hostname_service :: bool
  interface_selector :: bool
  manager :: bool
  dedicated_p2p_interface :: string
  mgmt_interface :: "string option"
  p2p_device :: "string option"
  current_device :: "nat option"
  current_group_device :: "string option"
  current_group_iface :: "string option"
  dhcp_client :: "string option"
  dhcp_server :: "string option"
  connect_timeout :: nat
  timeout_sources :: "nat list"
  next_source_id :: nat
  session_available :: bool
  capabilities :: "Capability list"
  trace :: "action list"

definition emit :: "action \<Rightarrow> NetworkManager \<Rightarrow> NetworkManager" where
  "emit a s = s\<lparr>trace := trace s @ [a]\<rparr>"

text \<open>
  Modelled from the spec: \<^verbatim>\<open>NetworkDevice::Create(path)\<close> (not among the sources). A
  freshly discovered peer is not connected; its address is learnt later from the peer's
  stub.
\<close>

definition NetworkDevice_Create :: "string \<Rightarrow> NetworkDevice" where
  "NetworkDevice_Create path =
     \<lparr>Address = [], ObjectPath = path, State = kDisconnected, Role = [], IpV4Address = []\<rparr>"

text \<open>
  Modelled from the spec: the members' initial values. The constructor in the source
  initialises \<^verbatim>\<open>session_available_(true)\<close> and the dedicated interface name; the
  others are declared in the header: all pointers null, no timeout armed, no capability.
\<close>

definition NetworkManager_new :: "string \<Rightarrow> NetworkManager" where
  "NetworkManager_new dedicated =
     \<lparr>heap = (\<lambda>_. NetworkDevice_Create []), next_ref = 0, devices = [],
      delegate = False, hostname_service = False, interface_selector = False,
      manager = False, dedicated_p2p_interface = dedicated,
      mgmt_interface = None, p2p_device = None, current_device = None,
      current_group_device = None, current_group_iface = None,
      dhcp_client = None, dhcp_server = None,
      connect_timeout = 0, timeout_sources = [], next_source_id = 1,
      session_available = True, capabilities = [], trace = []\<rparr>"

section \<open>Capabilities and the advertised device type\<close>

text \<open>
  The loop of \<^verbatim>\<open>GenerateWfdDeviceType\<close> over \<^verbatim>\<open>capabilities_\<close>; the pair is
  \<open>(has_source, has_sink)\<close>.
\<close>

fun scan_capabilities :: "Capability list \<Rightarrow> bool \<times> bool \<Rightarrow> bool \<times> bool" where
  "scan_capabilities [] flags = flags"
| "scan_capabilities (capability # rest) (has_source, has_sink) =
     (if capability = Capability.kSource then scan_capabilities rest (True, has_sink)
      else if capability = Capability.kSink then scan_capabilities rest (has_source, True)
      else scan_capabilities rest (has_source, has_sink))"

text \<open>
  The local \<^verbatim>\<open>DeviceType device_type;\<close> is declared without an initialiser and is
  assigned in three branches only. The result \<open>None\<close> stands for the local that was never
  assigned (an indeterminate value in C++).
\<close>

definition GenerateWfdDeviceType :: "NetworkManager \<Rightarrow> DeviceType option" where
  "GenerateWfdDeviceType s =
     (case scan_capabilities (capabilities s) (False, False) of
        (has_source, has_sink) \<Rightarrow>
          if has_sink \<and> \<not> has_source then Some kPrimarySink
          else if \<not> has_sink \<and> has_source then Some DeviceType.kSource
          else if has_sink \<and> has_source then Some kDualRole
          else None)"

definition ConfigureFromCapabilities :: "NetworkManager \<Rightarrow> NetworkManager" where
  "ConfigureFromCapabilities s =
     (if \<not> manager s then s
      else emit (SetWFDIEs (GenerateWfdDeviceType s) (session_available s) 7236 50) s)"

definition SetCapabilities :: "Capability list \<Rightarrow> NetworkManager \<Rightarrow> NetworkManager" where
  "SetCapabilities caps s =
     (if caps = capabilities s then s
      else ConfigureFromCapabilities (s\<lparr>capabilities := caps\<rparr>))"

section \<open>Device state changes and the connect timeout\<close>

definition SetState :: "nat \<Rightarrow> NetworkDeviceState \<Rightarrow> NetworkManager \<Rightarrow> NetworkManager" where
  "SetState r st s = s\<lparr>heap := (heap s)(r := (heap s r)\<lparr>State := st\<rparr>)\<rparr>"

definition AdvanceDeviceState ::
  "nat option \<Rightarrow> NetworkDeviceState \<Rightarrow> NetworkManager \<Rightarrow> error + NetworkManager" where
  "AdvanceDeviceState device st s =
     (case device of
        None \<Rightarrow> Inl NullDeref
      | Some r \<Rightarrow>
          and_then
            (let s1 = SetState r st s in
             if st = kDisconnected then
               (case mgmt_interface s1 of
                  None \<Rightarrow> Inl NullDeref
                | Some m \<Rightarrow> Inr (emit (SendDriverPrivateCommand m Off) s1))
             else Inr s1)
            (\<lambda>s2.
               let s3 = (if st = kConnected \<or> st = kDisconnected
                         then ConfigureFromCapabilities
                                (s2\<lparr>session_available := (st \<noteq> kConnected)\<rparr>)
                         else s2)
               in Inr (if delegate s3 then emit (Delegate_OnDeviceStateChanged r) s3 else s3)))"

definition StartConnectTimeout :: "NetworkManager \<Rightarrow> NetworkManager" where
  "StartConnectTimeout s =
     s\<lparr>connect_timeout := next_source_id s,
       timeout_sources := timeout_sources s @ [next_source_id s],
       next_source_id := Suc (next_source_id s)\<rparr>"

definition StopConnectTimeout :: "NetworkManager \<Rightarrow> NetworkManager" where
  "StopConnectTimeout s =
     (if connect_timeout s = 0 then s
      else s\<lparr>timeout_sources := removeAll (connect_timeout s) (timeout_sources s),
             connect_timeout := 0\<rparr>)"

text \<open>
  The callback that \<^verbatim>\<open>StartConnectTimeout\<close> registers. The keep-alive object always
  yields the manager, so the first branch of the lambda is not taken. The warning it logs
  reads \<^verbatim>\<open>inst->current_device_->Address()\<close> before anything else.
\<close>

definition ConnectTimeoutCallback :: "NetworkManager \<Rightarrow> error + NetworkManager" where
  "ConnectTimeoutCallback s =
     (case current_device s of
        None \<Rightarrow> Inl NullDeref
      | Some r \<Rightarrow>
          let s1 = s\<lparr>connect_timeout := 0\<rparr> in
          if State (heap s1 r) = kConnected \<or> State (heap s1 r) = kConfiguration
          then Inr s1
          else
            (case p2p_device s1 of
               None \<Rightarrow> Inl NullDeref
             | Some p \<Rightarrow>
                 and_then (AdvanceDeviceState (current_device s1) kFailure (emit P2P_Cancel s1))
                   (\<lambda>s2. Inr (s2\<lparr>current_device := None\<rparr>))))"

text \<open>
  The main loop dispatching the single-shot source \<open>source_id\<close>: the callback returns
  \<^verbatim>\<open>FALSE\<close>, which removes the source. A source that is not pending does not fire.
\<close>

definition FireConnectTimeout :: "nat \<Rightarrow> NetworkManager \<Rightarrow> error + NetworkManager" where
  "FireConnectTimeout source_id s =
     (if source_id \<in> set (timeout_sources s)
      then ConnectTimeoutCallback
             (s\<lparr>timeout_sources := removeAll source_id (timeout_sources s)\<rparr>)
      else Inr s)"

section \<open>The device registry\<close>

fun FindDevice_loop :: "(nat \<Rightarrow> NetworkDevice) \<Rightarrow> (string \<times> nat) list \<Rightarrow> string \<Rightarrow> nat option" where
  "FindDevice_loop h [] a = None"
| "FindDevice_loop h (iter # rest) a =
     (if Address (h (snd iter)) = a then Some (snd iter) else FindDevice_loop h rest a)"

definition FindDevice :: "NetworkManager \<Rightarrow> string \<Rightarrow> nat option" where
  "FindDevice s a = FindDevice_loop (heap s) (devices s) a"

definition OnDeviceFound :: "string \<Rightarrow> NetworkManager \<Rightarrow> NetworkManager" where
  "OnDeviceFound path s =
     (if map_of (devices s) path \<noteq> None then s
      else s\<lparr>heap := (heap s)(next_ref s := NetworkDevice_Create path),
             devices := insort_key fst (path, next_ref s) (devices s),
             next_ref := Suc (next_ref s)\<rparr>)"

definition OnDeviceLost :: "string \<Rightarrow> NetworkManager \<Rightarrow> NetworkManager" where
  "OnDeviceLost path s =
     (case map_of (devices s) path of
        None \<Rightarrow> s
      | Some device \<Rightarrow>
          let s1 = s\<lparr>devices := filter (\<lambda>entry. fst entry \<noteq> path) (devices s)\<rparr>;
              s2 = (case current_group_device s1 of
                      None \<Rightarrow> s1
                    | Some g \<Rightarrow>
                        if current_device s1 = Some device then emit (Group_Disconnect g) s1
                        else s1)
          in if delegate s2 then emit (Delegate_OnDeviceLost device) s2 else s2)"

text \<open>
  Modelled from the spec: the device object learning its address from the peer's stub
  (code of \<^verbatim>\<open>NetworkDevice\<close>, not among the sources). The manager itself never writes
  the address.
\<close>

definition NetworkDevice_SyncAddress :: "nat \<Rightarrow> string \<Rightarrow> NetworkManager \<Rightarrow> NetworkManager" where
  "NetworkDevice_SyncAddress r a s = s\<lparr>heap := (heap s)(r := (heap s r)\<lparr>Address := a\<rparr>)\<rparr>"

definition OnDeviceChanged :: "nat \<Rightarrow> NetworkManager \<Rightarrow> NetworkManager" where
  "OnDeviceChanged device s = (if delegate s then emit (Delegate_OnDeviceChanged device) s else s)"

definition OnDeviceReady :: "nat \<Rightarrow> NetworkManager \<Rightarrow> NetworkManager" where
  "OnDeviceReady device s = (if delegate s then emit (Delegate_OnDeviceFound device) s else s)"

section \<open>Set-up and release of the P2P interface\<close>

text \<open>
  \<open>need_firmware\<close> stands for the condition under which \<^verbatim>\<open>Initialize\<close> hands over to
  the firmware loader and returns.
\<close>

definition Initialize :: "bool \<Rightarrow> NetworkManager \<Rightarrow> NetworkManager" where
  "Initialize need_firmware s =
     (if need_firmware then s
      else s\<lparr>hostname_service := True, interface_selector := True, manager := True\<rparr>)"

definition SetupInterface :: "string \<Rightarrow> NetworkManager \<Rightarrow> NetworkManager" where
  "SetupInterface object_path s =
     (if p2p_device s \<noteq> None then s
      else s\<lparr>mgmt_interface := Some object_path, p2p_device := Some object_path\<rparr>)"

definition OnInterfaceSelectionDone :: "string \<Rightarrow> NetworkManager \<Rightarrow> NetworkManager" where
  "OnInterfaceSelectionDone path s = (if length path = 0 then s else SetupInterface path s)"

definition ReleaseInterface :: "NetworkManager \<Rightarrow> error + NetworkManager" where
  "ReleaseInterface s =
     and_then
       (if current_device s \<noteq> None then
          and_then (AdvanceDeviceState (current_device s) kDisconnected s)
            (\<lambda>s1. Inr (s1\<lparr>current_device := None, current_group_device := None,
                          current_group_iface := None\<rparr>))
        else Inr s)
       (\<lambda>s2. Inr (s2\<lparr>p2p_device := None, mgmt_interface := None\<rparr>))"

definition ReleaseInternal :: "NetworkManager \<Rightarrow> error + NetworkManager" where
  "ReleaseInternal s =
     and_then (ReleaseInterface s)
       (\<lambda>s1. Inr (s1\<lparr>hostname_service := False, interface_selector := False,
                     manager := False\<rparr>))"

definition Release :: "NetworkManager \<Rightarrow> error + NetworkManager" where
  "Release s = ReleaseInternal s"

definition SetDelegate :: "bool \<Rightarrow> NetworkManager \<Rightarrow> NetworkManager" where
  "SetDelegate d s = s\<lparr>delegate := d\<rparr>"

definition Scan :: "nat \<Rightarrow> NetworkManager \<Rightarrow> NetworkManager" where
  "Scan timeout s = (if p2p_device s = None then s else emit (P2P_Find timeout) s)"

definition OnManagerReady :: "NetworkManager \<Rightarrow> error + NetworkManager" where
  "OnManagerReady s =
     (let s1 = ConfigureFromCapabilities s in
      if \<not> manager s1 then Inl NullDeref
      else if length (dedicated_p2p_interface s1) > 0
      then Inr (emit (Manager_CreateInterface (dedicated_p2p_interface s1)) s1)
      else if \<not> interface_selector s1 then Inl NullDeref
      else Inr (emit InterfaceSelector_Process s1))"

definition OnManagerInterfaceRemoved :: "string \<Rightarrow> NetworkManager \<Rightarrow> error + NetworkManager" where
  "OnManagerInterfaceRemoved path s =
     (case p2p_device s of
        None \<Rightarrow> Inl NullDeref
      | Some p \<Rightarrow> if p \<noteq> path then Inr s else ReleaseInterface s)"

section \<open>Connect and Disconnect\<close>

text \<open>
  \<open>p2p_connect_result\<close> is what \<^verbatim>\<open>p2p_device_->Connect(d->ObjectPath())\<close> returns
  when the call is reached.
\<close>

definition Connect :: "bool \<Rightarrow> nat option \<Rightarrow> NetworkManager \<Rightarrow> error + (bool \<times> NetworkManager)" where
  "Connect p2p_connect_result device s =
     (if p2p_device s = None \<or> current_device s \<noteq> None then Inr (False, s)
      else
        (case device of
           None \<Rightarrow> Inr (False, s)
         | Some dv \<Rightarrow>
             (case FindDevice s (Address (heap s dv)) of
                None \<Rightarrow> Inr (False, s)
              | Some d \<Rightarrow>
                  let s1 = s\<lparr>current_device := Some d\<rparr>;
                      s2 = emit P2P_StopFind s1;
                      s3 = emit (P2P_Connect (ObjectPath (heap s2 d))) s2
                  in if \<not> p2p_connect_result then Inr (False, s3)
                     else
                       let s4 = SetState d kAssociation s3;
                           s5 = (if delegate s4 then emit (Delegate_OnDeviceStateChanged d) s4
                                 else s4)
                       in Inr (True, StartConnectTimeout s5))))"

definition Disconnect :: "nat option \<Rightarrow> NetworkManager \<Rightarrow> error + (bool \<times> NetworkManager)" where
  "Disconnect device s =
     (if p2p_device s = None \<or> current_device s = None then Inr (False, s)
      else
        (case device of
           None \<Rightarrow> Inl NullDeref
         | Some dv \<Rightarrow>
             if FindDevice s (Address (heap s dv)) = None then Inr (False, s)
             else
               (case current_group_device s of
                  None \<Rightarrow> Inl NullDeref
                | Some g \<Rightarrow> Inr (True, emit (Group_Disconnect g) s))))"

section \<open>Events of the P2P layer, the group and DHCP\<close>

definition HandleConnectFailed :: "NetworkManager \<Rightarrow> error + NetworkManager" where
  "HandleConnectFailed s =
     and_then (AdvanceDeviceState (current_device s) kFailure s)
       (\<lambda>s1. Inr (StopConnectTimeout (s1\<lparr>current_device := None\<rparr>)))"

definition OnPeerConnectFailed :: "NetworkManager \<Rightarrow> error + NetworkManager" where
  "OnPeerConnectFailed s = (if current_device s = None then Inr s else HandleConnectFailed s)"

definition OnGroupOwnerNegotiationFailure :: "NetworkManager \<Rightarrow> error + NetworkManager" where
  "OnGroupOwnerNegotiationFailure s =
     (if current_device s = None then Inr s else HandleConnectFailed s)"

text \<open>The success handler only writes to the debug log.\<close>

definition OnGroupOwnerNegotiationSuccess :: "NetworkManager \<Rightarrow> NetworkManager" where
  "OnGroupOwnerNegotiationSuccess s = s"

definition OnGroupStarted ::
  "string \<Rightarrow> string \<Rightarrow> string \<Rightarrow> NetworkManager \<Rightarrow> error + NetworkManager" where
  "OnGroupStarted group_path interface_path role s =
     (case current_device s of
        None \<Rightarrow> Inr s
      | Some r \<Rightarrow>
          and_then (AdvanceDeviceState (current_device s) kConfiguration s)
            (\<lambda>s1.
               let s2 = s1\<lparr>heap := (heap s1)(r := (heap s1 r)\<lparr>Role := role\<rparr>)\<rparr>;
                   s3 = s2\<lparr>current_group_iface := Some interface_path\<rparr>
               in Inr (s3\<lparr>current_group_device := Some interface_path\<rparr>)))"

definition OnGroupFinished :: "NetworkManager \<Rightarrow> error + NetworkManager" where
  "OnGroupFinished s =
     (if current_device s = None then Inr s
      else
        let s1 = StopConnectTimeout s;
            s2 = s1\<lparr>dhcp_client := None\<rparr>;
            s3 = s2\<lparr>dhcp_server := None\<rparr>;
            s4 = s3\<lparr>current_group_iface := None\<rparr>;
            s5 = s4\<lparr>current_group_device := None\<rparr>
        in and_then (AdvanceDeviceState (current_device s5) kDisconnected s5)
             (\<lambda>s6. Inr (s6\<lparr>current_device := None\<rparr>)))"

text \<open>\<^verbatim>\<open>OnGroupRequest\<close> only writes to the debug log.\<close>

definition OnGroupRequest :: "NetworkManager \<Rightarrow> NetworkManager" where
  "OnGroupRequest s = s"

definition OnDhcpAddressAssigned ::
  "IpV4Address \<Rightarrow> IpV4Address \<Rightarrow> NetworkManager \<Rightarrow> error + NetworkManager" where
  "OnDhcpAddressAssigned local_address remote_address s =
     (case current_device s of
        None \<Rightarrow> Inr s
      | Some r \<Rightarrow>
          if State (heap s r) \<noteq> kConfiguration then Inr s
          else
            let s1 = s\<lparr>heap := (heap s)(r := (heap s r)\<lparr>IpV4Address := remote_address\<rparr>)\<rparr>;
                s2 = StopConnectTimeout s1
            in AdvanceDeviceState (current_device s2) kConnected s2)"

definition OnDhcpTerminated :: "NetworkManager \<Rightarrow> error + NetworkManager" where
  "OnDhcpTerminated s =
     (case current_device s of
        None \<Rightarrow> Inr s
      | Some r \<Rightarrow>
          if State (heap s r) \<noteq> kConfiguration then Inr s
          else
            and_then (Disconnect (current_device s) s)
              (\<lambda>res. AdvanceDeviceState (current_device (snd res)) kFailure (snd res)))"

definition OnGroupInterfaceReady :: "NetworkManager \<Rightarrow> error + NetworkManager" where
  "OnGroupInterfaceReady s =
     (case current_device s of
        None \<Rightarrow> Inr s
      | Some r \<Rightarrow>
          if State (heap s r) \<noteq> kConfiguration then Inr s
          else
            (case current_group_iface s of
               None \<Rightarrow> Inl NullDeref
             | Some ifname \<Rightarrow>
                 (case mgmt_interface s of
                    None \<Rightarrow> Inl NullDeref
                  | Some m \<Rightarrow>
                      let s1 = emit (SendDriverPrivateCommand m Source) s in
                      if Role (heap s1 r) = ''GO''
                      then Inr (s1\<lparr>dhcp_server := Some ifname\<rparr>)
                      else Inr (s1\<lparr>dhcp_client := Some ifname\<rparr>))))"

definition OnInterfaceReady :: "string \<Rightarrow> NetworkManager \<Rightarrow> error + NetworkManager" where
  "OnInterfaceReady object_path s =
     (if current_group_iface s = Some object_path then OnGroupInterfaceReady s
      else
        (case mgmt_interface s of
           None \<Rightarrow> Inl NullDeref
         | Some m \<Rightarrow> Inr s))"

section \<open>The manager as a transition system\<close>

text \<open>
  The manager is single-threaded and event-driven: the public calls and the callbacks of
  its collaborators arrive one at a time. A call whose model value is \<open>Inl\<close> has no
  successor state. \<^verbatim>\<open>OnServiceFound\<close> and \<^verbatim>\<open>OnFirmwareLoaded\<close> are calls of
  \<^verbatim>\<open>Initialize\<close>, \<^verbatim>\<open>OnServiceLost\<close> is a call of \<^verbatim>\<open>ReleaseInternal\<close>, as is
  \<^verbatim>\<open>Release\<close>. Functions that write no member (\<^verbatim>\<open>SyncDeviceConfiguration\<close>,
  \<^verbatim>\<open>SelectHostname\<close>, \<^verbatim>\<open>SelectDeviceType\<close>, \<^verbatim>\<open>OnP2PDeviceReady\<close>,
  \<^verbatim>\<open>OnP2PDeviceChanged\<close>, \<^verbatim>\<open>OnHostnameChanged\<close>, \<^verbatim>\<open>OnManagerInterfaceAdded\<close>,
  \<^verbatim>\<open>OnManagerInterfaceCreationFailed\<close>, \<^verbatim>\<open>Setup\<close> and the getters) are not events
  here. \<open>EvSyncAddress\<close> is the device object learning its address.
\<close>

datatype event =
    EvInitialize bool
  | EvRelease
  | EvSetDelegate bool
  | EvScan nat
  | EvSetCapabilities "Capability list"
  | EvConnect bool "nat option"
  | EvDisconnect "nat option"
  | EvOnInterfaceSelectionDone string
  | EvOnManagerReady
  | EvOnManagerInterfaceRemoved string
  | EvOnInterfaceReady string
  | EvOnDeviceFound string
  | EvOnDeviceLost string
  | EvOnDeviceReady nat
  | EvOnDeviceChanged nat
  | EvSyncAddress nat string
  | EvOnPeerConnectFailed
  | EvOnGroupOwnerNegotiationFailure
  | EvOnGroupOwnerNegotiationSuccess
  | EvOnGroupStarted string string string
  | EvOnGroupFinished
  | EvOnGroupRequest
  | EvOnDhcpAddressAssigned IpV4Address IpV4Address
  | EvOnDhcpTerminated
  | EvConnectTimeout nat

fun handle :: "event \<Rightarrow> NetworkManager \<Rightarrow> error + NetworkManager" where
  "handle (EvInitialize need_firmware) s = Inr (Initialize need_firmware s)"
| "handle EvRelease s = Release s"
| "handle (EvSetDelegate d) s = Inr (SetDelegate d s)"
| "handle (EvScan timeout) s = Inr (Scan timeout s)"
| "handle (EvSetCapabilities caps) s = Inr (SetCapabilities caps s)"
| "handle (EvConnect p2p_connect_result device) s =
     and_then (Connect p2p_connect_result device s) (\<lambda>res. Inr (snd res))"
| "handle (EvDisconnect device) s = and_then (Disconnect device s) (\<lambda>res. Inr (snd res))"
| "handle (EvOnInterfaceSelectionDone path) s = Inr (OnInterfaceSelectionDone path s)"
| "handle EvOnManagerReady s = OnManagerReady s"
| "handle (EvOnManagerInterfaceRemoved path) s = OnManagerInterfaceRemoved path s"
| "handle (EvOnInterfaceReady object_path) s = OnInterfaceReady object_path s"
| "handle (EvOnDeviceFound path) s = Inr (OnDeviceFound path s)"
| "handle (EvOnDeviceLost path) s = Inr (OnDeviceLost path s)"
| "handle (EvOnDeviceReady device) s = Inr (OnDeviceReady device s)"
| "handle (EvOnDeviceChanged device) s = Inr (OnDeviceChanged device s)"
| "handle (EvSyncAddress r a) s = Inr (NetworkDevice_SyncAddress r a s)"
| "handle EvOnPeerConnectFailed s = OnPeerConnectFailed s"
| "handle EvOnGroupOwnerNegotiationFailure s = OnGroupOwnerNegotiationFailure s"
| "handle EvOnGroupOwnerNegotiationSuccess s = Inr (OnGroupOwnerNegotiationSuccess s)"
| "handle (EvOnGroupStarted group_path interface_path role) s =
     OnGroupStarted group_path interface_path role s"
| "handle EvOnGroupFinished s = OnGroupFinished s"
| "handle EvOnGroupRequest s = Inr (OnGroupRequest s)"
| "handle (EvOnDhcpAddressAssigned local_address remote_address) s =
     OnDhcpAddressAssigned local_address remote_address s"
| "handle EvOnDhcpTerminated s = OnDhcpTerminated s"
| "handle (EvConnectTimeout source_id) s = FireConnectTimeout source_id s"

fun run :: "event list \<Rightarrow> NetworkManager \<Rightarrow> error + NetworkManager" where
  "run [] s = Inr s"
| "run (ev # evs) s = and_then (handle ev s) (run evs)"

inductive reachable :: "NetworkManager \<Rightarrow> bool" where
  start: "reachable (NetworkManager_new dedicated)"
| step: "reachable s \<Longrightarrow> handle ev s = Inr s' \<Longrightarrow> reachable s'"

text \<open>
  The facts about the session that every handler keeps:
  the P2P device and the management interface are set and reset together;
  a current device implies a P2P device; the two group handles are set and reset together;
  a device that is not current is neither associating, configuring nor connected;
  a current device in Configuration or Connected has its group handles;
  a current device in Association has the connect timeout armed;
  a current device in Connected has no connect timeout armed;
  an armed timeout is a pending source of the main loop.
\<close>

definition session_inv :: "NetworkManager \<Rightarrow> bool" where
  "session_inv s \<longleftrightarrow>
     (p2p_device s = None \<longleftrightarrow> mgmt_interface s = None) \<and>
     (current_device s \<noteq> None \<longrightarrow> p2p_device s \<noteq> None) \<and>
     (current_group_device s = None \<longleftrightarrow> current_group_iface s = None) \<and>
     (\<forall>r. current_device s \<noteq> Some r \<longrightarrow>
            State (heap s r) \<noteq> kAssociation \<and> State (heap s r) \<noteq> kConfiguration \<and>
            State (heap s r) \<noteq> kConnected) \<and>
     (\<forall>r. current_device s = Some r \<longrightarrow>
            State (heap s r) = kConfiguration \<or> State (heap s r) = kConnected \<longrightarrow>
            current_group_device s \<noteq> None) \<and>
     (\<forall>r. current_device s = Some r \<longrightarrow> State (heap s r) = kAssociation \<longrightarrow>
            connect_timeout s \<noteq> 0) \<and>
     (\<forall>r. current_device s = Some r \<longrightarrow> State (heap s r) = kConnected \<longrightarrow>
            connect_timeout s = 0) \<and>
     (connect_timeout s \<noteq> 0 \<longrightarrow> connect_timeout s \<in> set (timeout_sources s)) \<and>
     0 < next_source_id s"

section \<open>Concrete sessions\<close>

text \<open>
  A session with one peer, used to run the handlers on concrete inputs: the P2P interface
  \<^verbatim>\<open>/p2p0\<close> is set up and the peer \<^verbatim>\<open>/peer/1\<close> with address \<^verbatim>\<open>aa:bb\<close> is registered.
\<close>

definition peer1 :: NetworkDevice where
  "peer1 = \<lparr>Address = ''aa:bb'', ObjectPath = ''/peer/1'', State = kDisconnected,
            Role = [], IpV4Address = []\<rparr>"

definition ev_ready :: "event list" where
  "ev_ready = [EvOnInterfaceSelectionDone ''/p2p0'', EvOnDeviceFound ''/peer/1'',
               EvSyncAddress 0 ''aa:bb'']"

definition st_ready :: NetworkManager where
  "st_ready = (NetworkManager_new [])
     \<lparr>heap := (heap (NetworkManager_new []))(0 := peer1), next_ref := 1,
      devices := [(''/peer/1'', 0)],
      mgmt_interface := Some ''/p2p0'', p2p_device := Some ''/p2p0''\<rparr>"

text \<open>After \<^verbatim>\<open>Connect\<close> that the P2P layer accepted.\<close>

definition st_association :: NetworkManager where
  "st_association = st_ready
     \<lparr>heap := (heap st_ready)(0 := peer1\<lparr>State := kAssociation\<rparr>),
      current_device := Some 0,
      connect_timeout := 1, timeout_sources := [1], next_source_id := 2,
      trace := [P2P_StopFind, P2P_Connect ''/peer/1'']\<rparr>"

text \<open>After \<^verbatim>\<open>Connect\<close> that the P2P layer rejected.\<close>

definition st_rejected :: NetworkManager where
  "st_rejected = st_ready
     \<lparr>current_device := Some 0, trace := [P2P_StopFind, P2P_Connect ''/peer/1'']\<rparr>"

text \<open>After the group-started event.\<close>

definition st_configuration :: NetworkManager where
  "st_configuration = st_association
     \<lparr>heap := (heap st_ready)(0 := peer1\<lparr>State := kConfiguration, Role := ''client''\<rparr>),
      current_group_device := Some ''/iface/1'', current_group_iface := Some ''/iface/1''\<rparr>"

text \<open>After the DHCP-terminated event in Configuration.\<close>

definition st_dhcp_terminated :: NetworkManager where
  "st_dhcp_terminated = st_configuration
     \<lparr>heap := (heap st_ready)(0 := peer1\<lparr>State := kFailure, Role := ''client''\<rparr>),
      trace := [P2P_StopFind, P2P_Connect ''/peer/1'', Group_Disconnect ''/iface/1'']\<rparr>"

text \<open>After the connect timeout fired in Configuration.\<close>

definition st_timeout_in_configuration :: NetworkManager where
  "st_timeout_in_configuration = st_configuration
     \<lparr>connect_timeout := 0, timeout_sources := []\<rparr>"

text \<open>After the DHCP address-assigned event in Configuration.\<close>

definition st_connected :: NetworkManager where
  "st_connected = st_configuration
     \<lparr>heap := (heap st_ready)
        (0 := peer1\<lparr>State := kConnected, Role := ''client'', IpV4Address := ''10.0.0.2''\<rparr>),
      connect_timeout := 0, timeout_sources := [], session_available := False\<rparr>"

text \<open>After the group-finished event in Configuration.\<close>

definition st_finished :: NetworkManager where
  "st_finished = st_configuration
     \<lparr>heap := (heap st_ready)(0 := peer1\<lparr>State := kDisconnected, Role := ''client''\<rparr>),
      current_device := None,
      current_group_device := None, current_group_iface := None,
      connect_timeout := 0, timeout_sources := [],
      trace := [P2P_StopFind, P2P_Connect ''/peer/1'', SendDriverPrivateCommand ''/p2p0'' Off]\<rparr>"

text \<open>After \<^verbatim>\<open>Release\<close> in Association: the timeout source 1 is still pending.\<close>

definition st_released :: NetworkManager where
  "st_released = st_association
     \<lparr>heap := (heap st_ready)(0 := peer1),
      current_device := None, p2p_device := None, mgmt_interface := None,
      session_available := True,
      trace := [P2P_StopFind, P2P_Connect ''/peer/1'',
                SendDriverPrivateCommand ''/p2p0'' Off]\<rparr>"

text \<open>After the peer-connect-failed event that follows a rejected \<^verbatim>\<open>Connect\<close>.\<close>

definition st_rejected_failed :: NetworkManager where
  "st_rejected_failed = st_rejected
     \<lparr>heap := (heap st_ready)(0 := peer1\<lparr>State := kFailure\<rparr>), current_device := None\<rparr>"




section \<open>Two invariants as the specification words them\<close>

text \<open>
  The group handles are non-null exactly when the current device exists and is in
  Configuration or Connected.
\<close>

definition spec_group_handles_iff :: "NetworkManager \<Rightarrow> bool" where
  "spec_group_handles_iff s \<longleftrightarrow>
     (current_group_device s \<noteq> None \<and> current_group_iface s \<noteq> None) =
     (case current_device s of
        None \<Rightarrow> False
      | Some r \<Rightarrow> State (heap s r) = kConfiguration \<or> State (heap s r) = kConnected)"


section \<open>Basic facts about the handlers\<close>

lemma and_then_simps [simp]:
  "and_then (Inl e) f = Inl e"
  "and_then (Inr x) f = f x"
  by (simp_all add: and_then_def)

lemma and_then_Inr_iff: "and_then m f = Inr y \<longleftrightarrow> (\<exists>x. m = Inr x \<and> f x = Inr y)"
  by (cases m) simp_all

lemma scan_capabilities_flags:
  "scan_capabilities cs (a, b) =
     (a \<or> Capability.kSource \<in> set cs, b \<or> Capability.kSink \<in> set cs)"
  by (induction cs arbitrary: a b) auto

lemma GenerateWfdDeviceType_cases:
  "GenerateWfdDeviceType s =
     (if Capability.kSink \<in> set (capabilities s) \<and> Capability.kSource \<notin> set (capabilities s)
      then Some kPrimarySink
      else if Capability.kSource \<in> set (capabilities s) \<and> Capability.kSink \<notin> set (capabilities s)
      then Some DeviceType.kSource
      else if Capability.kSource \<in> set (capabilities s) \<and> Capability.kSink \<in> set (capabilities s)
      then Some kDualRole
      else None)"
  by (simp add: GenerateWfdDeviceType_def scan_capabilities_flags)

lemma emit_fields [simp]:
  "heap (emit a s) = heap s"
  "next_ref (emit a s) = next_ref s"
  "devices (emit a s) = devices s"
  "delegate (emit a s) = delegate s"
  "hostname_service (emit a s) = hostname_service s"
  "interface_selector (emit a s) = interface_selector s"
  "manager (emit a s) = manager s"
  "dedicated_p2p_interface (emit a s) = dedicated_p2p_interface s"
  "mgmt_interface (emit a s) = mgmt_interface s"
  "p2p_device (emit a s) = p2p_device s"
  "current_device (emit a s) = current_device s"
  "current_group_device (emit a s) = current_group_device s"
  "current_group_iface (emit a s) = current_group_iface s"
  "dhcp_client (emit a s) = dhcp_client s"
  "dhcp_server (emit a s) = dhcp_server s"
  "connect_timeout (emit a s) = connect_timeout s"
  "timeout_sources (emit a s) = timeout_sources s"
  "next_source_id (emit a s) = next_source_id s"
  "session_available (emit a s) = session_available s"
  "capabilities (emit a s) = capabilities s"
  "trace (emit a s) = trace s @ [a]"
  by (simp_all add: emit_def)

lemma ConfigureFromCapabilities_fields [simp]:
  "heap (ConfigureFromCapabilities s) = heap s"
  "next_ref (ConfigureFromCapabilities s) = next_ref s"
  "devices (ConfigureFromCapabilities s) = devices s"
  "delegate (ConfigureFromCapabilities s) = delegate s"
  "hostname_service (ConfigureFromCapabilities s) = hostname_service s"
  "interface_selector (ConfigureFromCapabilities s) = interface_selector s"
  "manager (ConfigureFromCapabilities s) = manager s"
  "dedicated_p2p_interface (ConfigureFromCapabilities s) = dedicated_p2p_interface s"
  "mgmt_interface (ConfigureFromCapabilities s) = mgmt_interface s"
  "p2p_device (ConfigureFromCapabilities s) = p2p_device s"
  "current_device (ConfigureFromCapabilities s) = current_device s"
  "current_group_device (ConfigureFromCapabilities s) = current_group_device s"
  "current_group_iface (ConfigureFromCapabilities s) = current_group_iface s"
  "dhcp_client (ConfigureFromCapabilities s) = dhcp_client s"
  "dhcp_server (ConfigureFromCapabilities s) = dhcp_server s"
  "connect_timeout (ConfigureFromCapabilities s) = connect_timeout s"
  "timeout_sources (ConfigureFromCapabilities s) = timeout_sources s"
  "next_source_id (ConfigureFromCapabilities s) = next_source_id s"
  "session_available (ConfigureFromCapabilities s) = session_available s"
  "capabilities (ConfigureFromCapabilities s) = capabilities s"
  by (simp_all add: ConfigureFromCapabilities_def)

lemma StopConnectTimeout_fields [simp]:
  "heap (StopConnectTimeout s) = heap s"
  "next_ref (StopConnectTimeout s) = next_ref s"
  "devices (StopConnectTimeout s) = devices s"
  "delegate (StopConnectTimeout s) = delegate s"
  "manager (StopConnectTimeout s) = manager s"
  "mgmt_interface (StopConnectTimeout s) = mgmt_interface s"
  "p2p_device (StopConnectTimeout s) = p2p_device s"
  "current_device (StopConnectTimeout s) = current_device s"
  "current_group_device (StopConnectTimeout s) = current_group_device s"
  "current_group_iface (StopConnectTimeout s) = current_group_iface s"
  "dhcp_client (StopConnectTimeout s) = dhcp_client s"
  "dhcp_server (StopConnectTimeout s) = dhcp_server s"
  "connect_timeout (StopConnectTimeout s) = 0"
  "next_source_id (StopConnectTimeout s) = next_source_id s"
  "session_available (StopConnectTimeout s) = session_available s"
  "capabilities (StopConnectTimeout s) = capabilities s"
  "trace (StopConnectTimeout s) = trace s"
  by (simp_all add: StopConnectTimeout_def)

lemma AdvanceDeviceState_total:
  "st \<noteq> kDisconnected \<or> mgmt_interface s \<noteq> None \<Longrightarrow>
   \<exists>s'. AdvanceDeviceState (Some r) st s = Inr s'"
  by (auto simp: AdvanceDeviceState_def SetState_def Let_def split: option.splits)

lemma inv_emit [simp]: "session_inv (emit a s) = session_inv s"
  by (simp add: session_inv_def)

lemma inv_ConfigureFromCapabilities [simp]:
  "session_inv (ConfigureFromCapabilities s) = session_inv s"
  by (simp add: session_inv_def)

lemma inv_new: "session_inv (NetworkManager_new dedicated)"
  by (simp add: session_inv_def NetworkManager_new_def NetworkDevice_Create_def)

lemma inv_Initialize: "session_inv s \<Longrightarrow> session_inv (Initialize b s)"
  by (auto simp: session_inv_def Initialize_def)

lemma inv_SetDelegate: "session_inv s \<Longrightarrow> session_inv (SetDelegate b s)"
  by (auto simp: session_inv_def SetDelegate_def)

lemma inv_Scan: "session_inv s \<Longrightarrow> session_inv (Scan t s)"
  by (simp add: Scan_def)

lemma inv_SetCapabilities: "session_inv s \<Longrightarrow> session_inv (SetCapabilities c s)"
  by (auto simp: SetCapabilities_def session_inv_def)

lemma inv_SetupInterface: "session_inv s \<Longrightarrow> session_inv (SetupInterface p s)"
  by (auto simp: session_inv_def SetupInterface_def)

lemma inv_OnInterfaceSelectionDone:
  "session_inv s \<Longrightarrow> session_inv (OnInterfaceSelectionDone p s)"
  by (simp add: OnInterfaceSelectionDone_def inv_SetupInterface)

lemma inv_OnDeviceFound: "session_inv s \<Longrightarrow> session_inv (OnDeviceFound p s)"
  by (auto simp: session_inv_def OnDeviceFound_def NetworkDevice_Create_def)

lemma inv_OnDeviceLost: "session_inv s \<Longrightarrow> session_inv (OnDeviceLost p s)"
  by (auto simp: session_inv_def OnDeviceLost_def Let_def split: option.splits)

lemma inv_OnDeviceReady: "session_inv s \<Longrightarrow> session_inv (OnDeviceReady d s)"
  by (simp add: OnDeviceReady_def)

lemma inv_OnDeviceChanged: "session_inv s \<Longrightarrow> session_inv (OnDeviceChanged d s)"
  by (simp add: OnDeviceChanged_def)

lemma inv_SyncAddress: "session_inv s \<Longrightarrow> session_inv (NetworkDevice_SyncAddress r a s)"
  by (auto simp: session_inv_def NetworkDevice_SyncAddress_def)

lemma AdvanceDeviceState_shape:
  assumes "AdvanceDeviceState device st s = Inr s'"
  shows "\<exists>r sa tr. device = Some r \<and> (st = kDisconnected \<longrightarrow> mgmt_interface s \<noteq> None) \<and>
           s' = s\<lparr>heap := (heap s)(r := (heap s r)\<lparr>State := st\<rparr>),
                  session_available := sa, trace := tr\<rparr>"
proof -
  from assms obtain r where r: "device = Some r"
    by (auto simp: AdvanceDeviceState_def split: option.splits)
  have m: "st = kDisconnected \<longrightarrow> mgmt_interface s \<noteq> None"
    using assms r
    by (auto simp: AdvanceDeviceState_def SetState_def Let_def split: option.splits)
  have "s' = s\<lparr>heap := (heap s)(r := (heap s r)\<lparr>State := st\<rparr>),
               session_available := session_available s', trace := trace s'\<rparr>"
    using assms r
    by (auto simp: AdvanceDeviceState_def SetState_def Let_def emit_def
                   ConfigureFromCapabilities_def
             split: option.splits if_splits)
  with r m show ?thesis by blast
qed

lemma inv_ReleaseInterface:
  assumes inv: "session_inv s" and rel: "ReleaseInterface s = Inr s'"
  shows "session_inv s'"
proof (cases "current_device s")
  case None
  with rel have "s' = s\<lparr>p2p_device := None, mgmt_interface := None\<rparr>"
    by (simp add: ReleaseInterface_def)
  with inv None show ?thesis
    by (auto simp: session_inv_def)
next
  case (Some r)
  with rel obtain s1 where s1: "AdvanceDeviceState (Some r) kDisconnected s = Inr s1"
    and s': "s' = s1\<lparr>current_device := None, current_group_device := None,
                     current_group_iface := None, p2p_device := None, mgmt_interface := None\<rparr>"
    by (auto simp: ReleaseInterface_def and_then_Inr_iff)
  from AdvanceDeviceState_shape[OF s1] obtain sa tr where
    "s1 = s\<lparr>heap := (heap s)(r := (heap s r)\<lparr>State := kDisconnected\<rparr>),
            session_available := sa, trace := tr\<rparr>"
    by auto
  with s' inv Some show ?thesis
    by (auto simp: session_inv_def)
qed

lemma inv_Release: "session_inv s \<Longrightarrow> Release s = Inr s' \<Longrightarrow> session_inv s'"
proof -
  assume inv: "session_inv s" and rel: "Release s = Inr s'"
  then obtain s1 where s1: "ReleaseInterface s = Inr s1"
    and s': "s' = s1\<lparr>hostname_service := False, interface_selector := False, manager := False\<rparr>"
    by (auto simp: Release_def ReleaseInternal_def and_then_Inr_iff)
  from inv_ReleaseInterface[OF inv s1] have "session_inv s1" .
  with s' show ?thesis by (auto simp: session_inv_def)
qed

lemma inv_OnManagerReady: "session_inv s \<Longrightarrow> OnManagerReady s = Inr s' \<Longrightarrow> session_inv s'"
  by (auto simp: OnManagerReady_def Let_def split: if_splits)

lemma inv_OnManagerInterfaceRemoved:
  "session_inv s \<Longrightarrow> OnManagerInterfaceRemoved p s = Inr s' \<Longrightarrow> session_inv s'"
  by (auto simp: OnManagerInterfaceRemoved_def split: option.splits if_splits
           intro: inv_ReleaseInterface)

lemma Connect_refused:
  assumes "p2p_device s = None \<or> current_device s \<noteq> None \<or> device = None \<or>
           (\<exists>dv. device = Some dv \<and> FindDevice s (Address (heap s dv)) = None)"
  shows "Connect ok device s = Inr (False, s)"
  using assms by (auto simp: Connect_def)

lemma Connect_rejected:
  assumes "p2p_device s \<noteq> None" "current_device s = None" "device = Some dv"
    and "FindDevice s (Address (heap s dv)) = Some d"
  shows "Connect False device s =
           Inr (False, emit (P2P_Connect (ObjectPath (heap s d)))
                         (emit P2P_StopFind (s\<lparr>current_device := Some d\<rparr>)))"
  using assms by (auto simp: Connect_def Let_def)

lemma Connect_accepted:
  assumes "p2p_device s \<noteq> None" "current_device s = None" "device = Some dv"
    and "FindDevice s (Address (heap s dv)) = Some d"
  shows "Connect True device s =
           Inr (True,
             StartConnectTimeout
               (let s4 = SetState d kAssociation
                           (emit (P2P_Connect (ObjectPath (heap s d)))
                              (emit P2P_StopFind (s\<lparr>current_device := Some d\<rparr>)))
                in if delegate s then emit (Delegate_OnDeviceStateChanged d) s4 else s4))"
  using assms by (auto simp: Connect_def Let_def SetState_def)

lemma inv_Connect:
  assumes inv: "session_inv s" and c: "Connect ok device s = Inr (b, s')"
  shows "session_inv s'"
proof (cases "p2p_device s = None \<or> current_device s \<noteq> None \<or> device = None \<or>
           (\<exists>dv. device = Some dv \<and> FindDevice s (Address (heap s dv)) = None)")
  case True
  from Connect_refused[OF True] c inv show ?thesis by simp
next
  case False
  then obtain dv d where g: "p2p_device s \<noteq> None" "current_device s = None"
    and d: "device = Some dv" "FindDevice s (Address (heap s dv)) = Some d"
    by auto
  show ?thesis
  proof (cases ok)
    case False
    with c Connect_rejected[OF g d]
    have "s' = emit (P2P_Connect (ObjectPath (heap s d)))
                 (emit P2P_StopFind (s\<lparr>current_device := Some d\<rparr>))"
      by simp
    moreover have "session_inv (s\<lparr>current_device := Some d\<rparr>)"
      using inv g by (auto simp: session_inv_def)
    ultimately show ?thesis by simp
  next
    case True
    have *: "session_inv (StartConnectTimeout (SetState d kAssociation (s\<lparr>current_device := Some d, trace := tr\<rparr>)))" for tr
      using inv g by (auto simp: session_inv_def SetState_def StartConnectTimeout_def)
    have **: "session_inv (StartConnectTimeout (emit a (SetState d kAssociation
                 (s\<lparr>current_device := Some d, trace := tr\<rparr>))))" for tr a
      using inv g by (auto simp: session_inv_def SetState_def StartConnectTimeout_def)
    from c True Connect_accepted[OF g d]
    have "s' = StartConnectTimeout
               (let s4 = SetState d kAssociation
                           (emit (P2P_Connect (ObjectPath (heap s d)))
                              (emit P2P_StopFind (s\<lparr>current_device := Some d\<rparr>)))
                in if delegate s then emit (Delegate_OnDeviceStateChanged d) s4 else s4)"
      by simp
    then show ?thesis
      using * ** by (simp add: Let_def emit_def[of P2P_StopFind] emit_def[of "P2P_Connect _"])
  qed
qed

lemma Disconnect_shape:
  assumes "Disconnect device s = Inr (b, s')"
  shows "s' = s \<or> (\<exists>g. s' = emit (Group_Disconnect g) s)"
  using assms
  by (auto simp: Disconnect_def split: option.splits if_splits)

lemma inv_Disconnect:
  assumes inv: "session_inv s" and c: "Disconnect device s = Inr (b, s')"
  shows "session_inv s'"
  using Disconnect_shape[OF c] inv by auto

lemma inv_ConnectTimeoutCallback:
  assumes inv: "session_inv s" and c: "ConnectTimeoutCallback (s\<lparr>timeout_sources := ts\<rparr>) = Inr s'"
  shows "session_inv s'"
proof -
  let ?s0 = "s\<lparr>timeout_sources := ts\<rparr>"
  from c obtain r where r: "current_device s = Some r"
    by (auto simp: ConnectTimeoutCallback_def split: option.splits)
  show ?thesis
  proof (cases "State (heap s r) = kConnected \<or> State (heap s r) = kConfiguration")
    case True
    with c r have "s' = ?s0\<lparr>connect_timeout := 0\<rparr>"
      by (auto simp: ConnectTimeoutCallback_def Let_def)
    with inv r True show ?thesis by (auto simp: session_inv_def)
  next
    case False
    with c r obtain s2 where
      a: "AdvanceDeviceState (Some r) kFailure (emit P2P_Cancel (?s0\<lparr>connect_timeout := 0\<rparr>)) = Inr s2"
      and s': "s' = s2\<lparr>current_device := None\<rparr>"
      by (auto simp: ConnectTimeoutCallback_def Let_def and_then_Inr_iff split: option.splits)
    from AdvanceDeviceState_shape[OF a] obtain sa tr where
      "s2 = (emit P2P_Cancel (?s0\<lparr>connect_timeout := 0\<rparr>))
              \<lparr>heap := (heap s)(r := (heap s r)\<lparr>State := kFailure\<rparr>),
               session_available := sa, trace := tr\<rparr>"
      by auto
    with s' inv r show ?thesis by (auto simp: session_inv_def emit_def)
  qed
qed

lemma inv_FireConnectTimeout:
  assumes inv: "session_inv s" and c: "FireConnectTimeout i s = Inr s'"
  shows "session_inv s'"
proof (cases "i \<in> set (timeout_sources s)")
  case True
  with c inv show ?thesis
    by (auto simp: FireConnectTimeout_def intro: inv_ConnectTimeoutCallback)
next
  case False
  with c inv show ?thesis by (simp add: FireConnectTimeout_def)
qed

lemma inv_HandleConnectFailed:
  assumes inv: "session_inv s" and c: "HandleConnectFailed s = Inr s'"
  shows "session_inv s'"
proof -
  from c obtain s1 where a: "AdvanceDeviceState (current_device s) kFailure s = Inr s1"
    and s': "s' = StopConnectTimeout (s1\<lparr>current_device := None\<rparr>)"
    by (auto simp: HandleConnectFailed_def and_then_Inr_iff)
  from AdvanceDeviceState_shape[OF a] obtain r sa tr where r: "current_device s = Some r" and
    "s1 = s\<lparr>heap := (heap s)(r := (heap s r)\<lparr>State := kFailure\<rparr>),
            session_available := sa, trace := tr\<rparr>"
    by auto
  with s' inv show ?thesis by (auto simp: session_inv_def StopConnectTimeout_def)
qed

lemma inv_OnPeerConnectFailed:
  "session_inv s \<Longrightarrow> OnPeerConnectFailed s = Inr s' \<Longrightarrow> session_inv s'"
  by (auto simp: OnPeerConnectFailed_def split: if_splits intro: inv_HandleConnectFailed)

lemma inv_OnGroupOwnerNegotiationFailure:
  "session_inv s \<Longrightarrow> OnGroupOwnerNegotiationFailure s = Inr s' \<Longrightarrow> session_inv s'"
  by (auto simp: OnGroupOwnerNegotiationFailure_def split: if_splits
           intro: inv_HandleConnectFailed)

lemma inv_OnGroupStarted:
  assumes inv: "session_inv s" and c: "OnGroupStarted gp ip role s = Inr s'"
  shows "session_inv s'"
proof (cases "current_device s")
  case None
  with c inv show ?thesis by (simp add: OnGroupStarted_def)
next
  case (Some r)
  with c obtain s1 where a: "AdvanceDeviceState (Some r) kConfiguration s = Inr s1"
    and s': "s' = s1\<lparr>heap := (heap s1)(r := (heap s1 r)\<lparr>Role := role\<rparr>),
                     current_group_iface := Some ip, current_group_device := Some ip\<rparr>"
    by (auto simp: OnGroupStarted_def and_then_Inr_iff Let_def)
  from AdvanceDeviceState_shape[OF a] obtain sa tr where
    "s1 = s\<lparr>heap := (heap s)(r := (heap s r)\<lparr>State := kConfiguration\<rparr>),
            session_available := sa, trace := tr\<rparr>"
    by auto
  with s' inv Some show ?thesis by (auto simp: session_inv_def)
qed

lemma inv_OnGroupFinished:
  assumes inv: "session_inv s" and c: "OnGroupFinished s = Inr s'"
  shows "session_inv s'"
proof (cases "current_device s")
  case None
  with c inv show ?thesis by (simp add: OnGroupFinished_def)
next
  case (Some r)
  let ?s5 = "(StopConnectTimeout s)\<lparr>dhcp_client := None, dhcp_server := None,
               current_group_iface := None, current_group_device := None\<rparr>"
  from c Some obtain s6 where a: "AdvanceDeviceState (Some r) kDisconnected ?s5 = Inr s6"
    and s': "s' = s6\<lparr>current_device := None\<rparr>"
    by (auto simp: OnGroupFinished_def and_then_Inr_iff Let_def)
  from AdvanceDeviceState_shape[OF a] obtain sa tr where
    "s6 = ?s5\<lparr>heap := (heap s)(r := (heap s r)\<lparr>State := kDisconnected\<rparr>),
            session_available := sa, trace := tr\<rparr>"
    by auto
  with s' inv Some show ?thesis by (auto simp: session_inv_def StopConnectTimeout_def)
qed

lemma inv_OnDhcpAddressAssigned:
  assumes inv: "session_inv s" and c: "OnDhcpAddressAssigned la ra s = Inr s'"
  shows "session_inv s'"
proof (cases "\<exists>r. current_device s = Some r \<and> State (heap s r) = kConfiguration")
  case False
  with c inv show ?thesis
    by (auto simp: OnDhcpAddressAssigned_def split: option.splits if_splits)
next
  case True
  then obtain r where r: "current_device s = Some r" "State (heap s r) = kConfiguration"
    by auto
  let ?s2 = "StopConnectTimeout (s\<lparr>heap := (heap s)(r := (heap s r)\<lparr>IpV4Address := ra\<rparr>)\<rparr>)"
  from c r have a: "AdvanceDeviceState (Some r) kConnected ?s2 = Inr s'"
    by (simp add: OnDhcpAddressAssigned_def Let_def)
  from AdvanceDeviceState_shape[OF a] obtain sa tr where
    "s' = ?s2\<lparr>heap := (heap ?s2)(r := (heap ?s2 r)\<lparr>State := kConnected\<rparr>),
            session_available := sa, trace := tr\<rparr>"
    by auto
  with inv r show ?thesis by (auto simp: session_inv_def StopConnectTimeout_def)
qed

lemma inv_OnDhcpTerminated:
  assumes inv: "session_inv s" and c: "OnDhcpTerminated s = Inr s'"
  shows "session_inv s'"
proof (cases "\<exists>r. current_device s = Some r \<and> State (heap s r) = kConfiguration")
  case False
  with c inv show ?thesis
    by (auto simp: OnDhcpTerminated_def split: option.splits if_splits)
next
  case True
  then obtain r where r: "current_device s = Some r" "State (heap s r) = kConfiguration"
    by auto
  with c obtain b s1 where d: "Disconnect (Some r) s = Inr (b, s1)"
    and a: "AdvanceDeviceState (current_device s1) kFailure s1 = Inr s'"
    by (auto simp: OnDhcpTerminated_def and_then_Inr_iff)
  from Disconnect_shape[OF d] obtain tr1 where s1: "s1 = s\<lparr>trace := tr1\<rparr>"
    by (auto simp: emit_def intro: that[of "trace s"])
  from AdvanceDeviceState_shape[OF a] s1 r obtain sa tr where
    "s' = s1\<lparr>heap := (heap s1)(r := (heap s1 r)\<lparr>State := kFailure\<rparr>),
            session_available := sa, trace := tr\<rparr>"
    by auto
  with s1 inv r show ?thesis by (auto simp: session_inv_def)
qed

lemma inv_OnGroupInterfaceReady:
  "session_inv s \<Longrightarrow> OnGroupInterfaceReady s = Inr s' \<Longrightarrow> session_inv s'"
  by (auto simp: OnGroupInterfaceReady_def Let_def session_inv_def emit_def
           split: option.splits if_splits)

lemma inv_OnInterfaceReady:
  "session_inv s \<Longrightarrow> OnInterfaceReady p s = Inr s' \<Longrightarrow> session_inv s'"
  by (auto simp: OnInterfaceReady_def split: option.splits if_splits
           intro: inv_OnGroupInterfaceReady)

lemma inv_handle:
  assumes "session_inv s" and "handle ev s = Inr s'"
  shows "session_inv s'"
  using assms
  by (cases ev)
     (auto simp: and_then_Inr_iff OnGroupOwnerNegotiationSuccess_def OnGroupRequest_def
           intro: inv_Initialize inv_Release inv_SetDelegate inv_Scan inv_SetCapabilities
                  inv_Connect inv_Disconnect inv_OnInterfaceSelectionDone inv_OnManagerReady
                  inv_OnManagerInterfaceRemoved inv_OnInterfaceReady inv_OnDeviceFound
                  inv_OnDeviceLost inv_OnDeviceReady inv_OnDeviceChanged inv_SyncAddress
                  inv_OnPeerConnectFailed inv_OnGroupOwnerNegotiationFailure
                  inv_OnGroupStarted inv_OnGroupFinished inv_OnDhcpAddressAssigned
                  inv_OnDhcpTerminated inv_FireConnectTimeout)

lemma reachable_inv: "reachable s \<Longrightarrow> session_inv s"
  by (induction rule: reachable.induct) (auto intro: inv_new inv_handle)

section \<open>Runs, lookups and explicit results\<close>

lemma reachable_run:
  "reachable s \<Longrightarrow> run evs s = Inr s' \<Longrightarrow> reachable s'"
proof (induction evs arbitrary: s)
  case Nil
  then show ?case by simp
next
  case (Cons ev evs)
  then show ?case by (auto simp: and_then_Inr_iff intro: reachable.step)
qed

lemmas handler_defs =
  OnInterfaceSelectionDone_def SetupInterface_def OnDeviceFound_def NetworkDevice_SyncAddress_def
  NetworkDevice_Create_def NetworkManager_new_def Connect_def FindDevice_def SetState_def
  StartConnectTimeout_def StopConnectTimeout_def emit_def OnGroupStarted_def
  AdvanceDeviceState_def OnDhcpTerminated_def Disconnect_def FireConnectTimeout_def
  ConnectTimeoutCallback_def ConfigureFromCapabilities_def Let_def

lemma run_ready: "run ev_ready (NetworkManager_new []) = Inr st_ready"
  by (simp add: ev_ready_def st_ready_def peer1_def handler_defs)

lemma handle_association: "handle (EvConnect True (Some 0)) st_ready = Inr st_association"
  by (simp add: st_association_def st_ready_def peer1_def handler_defs)

lemma handle_rejected: "handle (EvConnect False (Some 0)) st_ready = Inr st_rejected"
  by (simp add: st_rejected_def st_ready_def peer1_def handler_defs)

lemma handle_configuration:
  "handle (EvOnGroupStarted ''/group/1'' ''/iface/1'' ''client'') st_association = Inr st_configuration"
  by (simp add: st_configuration_def st_association_def st_ready_def peer1_def handler_defs)

lemma handle_dhcp_terminated:
  "handle EvOnDhcpTerminated st_configuration = Inr st_dhcp_terminated"
  by (simp add: st_dhcp_terminated_def st_configuration_def st_association_def st_ready_def
        peer1_def handler_defs)


lemma reachable_ready: "reachable st_ready"
  using reachable_run[OF reachable.start run_ready] .

lemma reachable_association: "reachable st_association"
  using reachable.step[OF reachable_ready handle_association] .

lemma reachable_rejected: "reachable st_rejected"
  using reachable.step[OF reachable_ready handle_rejected] .

lemma reachable_configuration: "reachable st_configuration"
  using reachable.step[OF reachable_association handle_configuration] .



lemma handle_released: "handle EvRelease st_association = Inr st_released"
  by (simp add: st_released_def st_association_def st_ready_def peer1_def handler_defs
        Release_def ReleaseInternal_def ReleaseInterface_def)

lemma reachable_released: "reachable st_released"
  using reachable.step[OF reachable_association handle_released] .

lemma handle_rejected_failed: "handle EvOnPeerConnectFailed st_rejected = Inr st_rejected_failed"
  by (simp add: st_rejected_failed_def st_rejected_def st_ready_def peer1_def handler_defs
        OnPeerConnectFailed_def HandleConnectFailed_def)

lemma reachable_rejected_failed: "reachable st_rejected_failed"
  using reachable.step[OF reachable_rejected handle_rejected_failed] .



lemma FindDevice_loop_None_iff:
  "FindDevice_loop h xs a = None \<longleftrightarrow> (\<forall>e\<in>set xs. Address (h (snd e)) \<noteq> a)"
  by (induction xs) auto

lemma FindDevice_loop_Some:
  "FindDevice_loop h xs a = Some d \<Longrightarrow> d \<in> snd ` set xs \<and> Address (h d) = a"
  by (induction xs) (auto split: if_splits)


lemma FindDevice_None_iff:
  "FindDevice s a = None \<longleftrightarrow> (\<forall>e\<in>set (devices s). Address (heap s (snd e)) \<noteq> a)"
  by (simp add: FindDevice_def FindDevice_loop_None_iff)

lemma FindDevice_Some:
  "FindDevice s a = Some d \<Longrightarrow> d \<in> snd ` set (devices s) \<and> Address (heap s d) = a"
  by (simp add: FindDevice_def FindDevice_loop_Some)

lemma reachable_interfaces:
  assumes "reachable s" and "current_device s \<noteq> None"
  shows "p2p_device s \<noteq> None" and "mgmt_interface s \<noteq> None"
  using reachable_inv[OF assms(1)] assms(2) unfolding session_inv_def by blast+

lemma AdvanceDeviceState_kFailure:
  "AdvanceDeviceState (Some r) kFailure s =
     Inr (s\<lparr>heap := (heap s)(r := (heap s r)\<lparr>State := kFailure\<rparr>),
            trace := trace s @ (if delegate s then [Delegate_OnDeviceStateChanged r] else [])\<rparr>)"
  by (simp add: AdvanceDeviceState_def SetState_def emit_def)

lemma OnGroupFinished_current:
  assumes "current_device s = Some r" and "mgmt_interface s \<noteq> None"
  shows "\<exists>s6. connect_timeout s6 = 0 \<and>
              (connect_timeout s \<noteq> 0 \<longrightarrow> connect_timeout s \<notin> set (timeout_sources s6)) \<and>
              dhcp_client s6 = None \<and> dhcp_server s6 = None \<and>
              current_group_iface s6 = None \<and> current_group_device s6 = None \<and>
              current_device s6 = Some r \<and> State (heap s6 r) = kDisconnected \<and>
              OnGroupFinished s = Inr (s6\<lparr>current_device := None\<rparr>)"
proof -
  let ?s5 = "(StopConnectTimeout s)\<lparr>dhcp_client := None, dhcp_server := None,
               current_group_iface := None, current_group_device := None\<rparr>"
  from assms(2) obtain s6 where a: "AdvanceDeviceState (Some r) kDisconnected ?s5 = Inr s6"
    using AdvanceDeviceState_total[of kDisconnected ?s5 r] by auto
  from AdvanceDeviceState_shape[OF a] obtain sa tr where
    s6: "s6 = ?s5\<lparr>heap := (heap s)(r := (heap s r)\<lparr>State := kDisconnected\<rparr>),
                  session_available := sa, trace := tr\<rparr>"
    by auto
  have "OnGroupFinished s = Inr (s6\<lparr>current_device := None\<rparr>)"
    using assms(1) a by (simp add: OnGroupFinished_def Let_def)
  moreover have "connect_timeout s \<noteq> 0 \<longrightarrow> connect_timeout s \<notin> set (timeout_sources s6)"
    unfolding s6 by (simp add: StopConnectTimeout_def)
  ultimately show ?thesis
    using assms(1) unfolding s6 by (intro exI[of _ s6]) (simp add: s6)
qed

lemma handle_finished: "handle EvOnGroupFinished st_configuration = Inr st_finished"
  by (simp add: st_finished_def st_configuration_def st_association_def st_ready_def
        peer1_def handler_defs OnGroupFinished_def)

lemma handle_connected:
  "handle (EvOnDhcpAddressAssigned ''10.0.0.1'' ''10.0.0.2'') st_configuration = Inr st_connected"
  by (simp add: st_connected_def st_configuration_def st_association_def st_ready_def
        peer1_def handler_defs OnDhcpAddressAssigned_def)

lemma Disconnect_result:
  "Disconnect device s =
     (if p2p_device s = None \<or> current_device s = None then Inr (False, s)
      else if device = None then Inl NullDeref
      else if FindDevice s (Address (heap s (the device))) = None then Inr (False, s)
      else if current_group_device s = None then Inl NullDeref
      else Inr (True, emit (Group_Disconnect (the (current_group_device s))) s))"
  by (auto simp: Disconnect_def split: option.splits)

lemma FindDevice_emit [simp]: "FindDevice (emit a s) x = FindDevice s x"
  by (simp add: FindDevice_def)



lemma reachable_finished: "reachable st_finished"
  using reachable.step[OF reachable_configuration handle_finished] .





















section \<open>The claims\<close>

subsection \<open>C1: group handles and the device state\<close>

text \<open>
  C1 says that in every reachable state the group handles are non-null exactly when the
  current device exists and is in Configuration or Connected. \<^verbatim>\<open>Connect\<close>, group-started
  and DHCP-terminated lead to \<open>st_dhcp_terminated\<close>: \<^verbatim>\<open>OnDhcpTerminated\<close> asks the group
  to disconnect and moves the device to Failure, keeping the current device and both group
  handles. The device is then in Failure with the handles of an active group, against the
  comment in the timeout callback (\<^verbatim>\<open>We don't have an active group if we're not in
  connected or configuration state\<close>).
\<close>

theorem C1_handles_set_in_Failure:
  "run (ev_ready @ [EvConnect True (Some 0),
                    EvOnGroupStarted ''/group/1'' ''/iface/1'' ''client'',
                    EvOnDhcpTerminated]) (NetworkManager_new []) = Inr st_dhcp_terminated \<and>
   current_device st_dhcp_terminated = Some 0 \<and>
   State (heap st_dhcp_terminated 0) = kFailure \<and>
   current_group_device st_dhcp_terminated = Some ''/iface/1'' \<and>
   current_group_iface st_dhcp_terminated = Some ''/iface/1'' \<and>
   \<not> spec_group_handles_iff st_dhcp_terminated"
proof -
  have "run (ev_ready @ [EvConnect True (Some 0),
                    EvOnGroupStarted ''/group/1'' ''/iface/1'' ''client'',
                    EvOnDhcpTerminated]) (NetworkManager_new []) =
        run [EvConnect True (Some 0),
             EvOnGroupStarted ''/group/1'' ''/iface/1'' ''client'',
             EvOnDhcpTerminated] st_ready"
    using run_ready by (simp add: ev_ready_def)
  also have "\<dots> = Inr st_dhcp_terminated"
    using handle_association handle_configuration handle_dhcp_terminated by simp
  finally show ?thesis
    by (simp add: spec_group_handles_iff_def st_dhcp_terminated_def st_configuration_def
          st_association_def st_ready_def peer1_def)
qed

text \<open>
  The direction from the device state to the handles holds in every reachable state: the
  two handles are null together or non-null together, and both are non-null whenever the
  current device exists and is in Configuration or Connected.
\<close>

lemma group_handles_present:
  assumes "reachable s"
  shows "(current_group_device s = None \<longleftrightarrow> current_group_iface s = None) \<and>
         (\<forall>r. current_device s = Some r \<and>
               (State (heap s r) = kConfiguration \<or> State (heap s r) = kConnected) \<longrightarrow>
               current_group_device s \<noteq> None \<and> current_group_iface s \<noteq> None)"
  using reachable_inv[OF assms] unfolding session_inv_def by blast

subsection \<open>C2: the connect timeout fires\<close>

text \<open>
  C2 says that the firing timeout does nothing when the current device is in Connected
  or Configuration, and otherwise cancels the P2P connect attempt, moves the current
  device to Failure and clears \<^verbatim>\<open>current_device_\<close>. \<^verbatim>\<open>ReleaseInterface\<close> clears
  \<^verbatim>\<open>current_device_\<close> without stopping the timer, unlike \<^verbatim>\<open>OnGroupFinished\<close> and
  \<^verbatim>\<open>HandleConnectFailed\<close>. After \<^verbatim>\<open>Connect\<close> and \<^verbatim>\<open>Release\<close> the source that
  \<^verbatim>\<open>connect_timeout_\<close> names is pending with no current device, and when it fires the
  callback dereferences the null \<^verbatim>\<open>current_device_\<close> in its first statement.
\<close>

theorem C2_timeout_fires_after_release:
  "run (ev_ready @ [EvConnect True (Some 0), EvRelease]) (NetworkManager_new []) =
     Inr st_released \<and>
   current_device st_released = None \<and> connect_timeout st_released = 1 \<and>
   timeout_sources st_released = [1] \<and>
   FireConnectTimeout 1 st_released = Inl NullDeref"
proof -
  have "run (ev_ready @ [EvConnect True (Some 0), EvRelease]) (NetworkManager_new []) =
        run [EvConnect True (Some 0), EvRelease] st_ready"
    using run_ready by (simp add: ev_ready_def)
  also have "\<dots> = Inr st_released"
    using handle_association handle_released by simp
  finally show ?thesis
    by (simp add: st_released_def st_association_def st_ready_def FireConnectTimeout_def
          ConnectTimeoutCallback_def)
qed

text \<open>
  Whenever a current device exists, the firing timeout does what C2 says: in Connected or
  Configuration only the timer's own bookkeeping is reset, otherwise the connect attempt
  is cancelled, the device moves to Failure and \<^verbatim>\<open>current_device_\<close> is cleared.
\<close>

lemma connect_timeout_fires_with_current_device:
  assumes "reachable s" and "source_id \<in> set (timeout_sources s)"
    and "current_device s = Some r"
  shows "(State (heap s r) = kConnected \<or> State (heap s r) = kConfiguration \<longrightarrow>
            FireConnectTimeout source_id s =
              Inr (s\<lparr>timeout_sources := removeAll source_id (timeout_sources s),
                     connect_timeout := 0\<rparr>)) \<and>
         (State (heap s r) \<noteq> kConnected \<and> State (heap s r) \<noteq> kConfiguration \<longrightarrow>
            FireConnectTimeout source_id s =
              Inr (s\<lparr>timeout_sources := removeAll source_id (timeout_sources s),
                     connect_timeout := 0,
                     trace := trace s @ P2P_Cancel #
                                (if delegate s then [Delegate_OnDeviceStateChanged r] else []),
                     heap := (heap s)(r := (heap s r)\<lparr>State := kFailure\<rparr>),
                     current_device := None\<rparr>))"
proof -
  from reachable_interfaces(1)[OF assms(1)] assms(3)
  obtain p where p: "p2p_device s = Some p" by auto
  show ?thesis
    using assms(2,3) p
    by (simp add: FireConnectTimeout_def ConnectTimeoutCallback_def Let_def
          AdvanceDeviceState_kFailure emit_def)
qed

lemma connect_timeout_fires_examples:
  "FireConnectTimeout 1 st_configuration = Inr st_timeout_in_configuration \<and>
   FireConnectTimeout 1 st_association =
     Inr (st_association\<lparr>timeout_sources := [], connect_timeout := 0,
            trace := [P2P_StopFind, P2P_Connect ''/peer/1'', P2P_Cancel],
            heap := (heap st_ready)(0 := peer1\<lparr>State := kFailure\<rparr>),
            current_device := None\<rparr>)"
proof -
  have c: "current_device st_configuration = Some 0" "1 \<in> set (timeout_sources st_configuration)"
    and a: "current_device st_association = Some 0" "1 \<in> set (timeout_sources st_association)"
    by (simp_all add: st_configuration_def st_association_def st_ready_def)
  from connect_timeout_fires_with_current_device[OF reachable_configuration c(2) c(1)]
       connect_timeout_fires_with_current_device[OF reachable_association a(2) a(1)]
  show ?thesis
    by (simp add: st_timeout_in_configuration_def st_configuration_def st_association_def
          st_ready_def peer1_def NetworkManager_new_def)
qed

subsection \<open>C3: the contract of Connect\<close>

text \<open>
  As worded, C3 lets \<^verbatim>\<open>Connect\<close> return true and reach Association whenever none of its
  four refusal conditions holds. In \<open>st_ready\<close> none holds, yet a request that the P2P
  layer rejects returns false, with the device bound, its state unchanged and no timeout.
\<close>

theorem C3_Connect_otherwise_counterexample:
  "reachable st_ready \<and> p2p_device st_ready \<noteq> None \<and> current_device st_ready = None \<and>
   FindDevice st_ready (Address (heap st_ready 0)) = Some 0 \<and>
   Connect False (Some 0) st_ready = Inr (False, st_rejected) \<and>
   st_rejected \<noteq> st_ready \<and> State (heap st_rejected 0) = kDisconnected \<and>
   connect_timeout st_rejected = 0"
proof -
  have "current_device st_rejected \<noteq> current_device st_ready"
    by (simp add: st_rejected_def st_ready_def NetworkManager_new_def)
  then have "st_rejected \<noteq> st_ready" by auto
  with reachable_ready show ?thesis
    by (simp add: st_rejected_def st_ready_def peer1_def NetworkManager_new_def Connect_def
          FindDevice_def emit_def Let_def NetworkDevice_Create_def)
qed

text \<open>
  C3 (amended): \<^verbatim>\<open>Connect(device)\<close> returns false with no state change whenever the P2P
  device is not set up, a connection is in progress, \<^verbatim>\<open>device\<close> is null, or no
  registered device has the address of \<^verbatim>\<open>device\<close>. Otherwise, when the P2P layer accepts
  the connect request, it binds \<^verbatim>\<open>current_device_\<close> to a registered device with that
  address, stops discovery, requests the connection, moves the device to Association,
  notifies the delegate if one is set, arms the connect timeout and returns true.
\<close>

theorem C3_Connect_contract:
  assumes "reachable s"
  shows "(p2p_device s = None \<or> current_device s \<noteq> None \<or> device = None \<or>
          (\<exists>dv. device = Some dv \<and>
                (\<forall>e\<in>set (devices s). Address (heap s (snd e)) \<noteq> Address (heap s dv)))
          \<longrightarrow> Connect ok device s = Inr (False, s)) \<and>
         (\<forall>dv. p2p_device s \<noteq> None \<and> current_device s = None \<and> device = Some dv \<and>
               (\<exists>e\<in>set (devices s). Address (heap s (snd e)) = Address (heap s dv)) \<longrightarrow>
               (\<exists>d. d \<in> snd ` set (devices s) \<and> Address (heap s d) = Address (heap s dv) \<and>
                    next_source_id s \<noteq> 0 \<and>
                    Connect True device s =
                      Inr (True,
                        s\<lparr>current_device := Some d,
                          heap := (heap s)(d := (heap s d)\<lparr>State := kAssociation\<rparr>),
                          trace := trace s @
                            [P2P_StopFind, P2P_Connect (ObjectPath (heap s d))] @
                            (if delegate s then [Delegate_OnDeviceStateChanged d] else []),
                          connect_timeout := next_source_id s,
                          timeout_sources := timeout_sources s @ [next_source_id s],
                          next_source_id := Suc (next_source_id s)\<rparr>)))"
proof (intro conjI allI impI)
  assume "p2p_device s = None \<or> current_device s \<noteq> None \<or> device = None \<or>
          (\<exists>dv. device = Some dv \<and>
                (\<forall>e\<in>set (devices s). Address (heap s (snd e)) \<noteq> Address (heap s dv)))"
  then show "Connect ok device s = Inr (False, s)"
    by (intro Connect_refused) (auto simp: FindDevice_None_iff)
next
  fix dv
  assume h: "p2p_device s \<noteq> None \<and> current_device s = None \<and> device = Some dv \<and>
             (\<exists>e\<in>set (devices s). Address (heap s (snd e)) = Address (heap s dv))"
  then have "FindDevice s (Address (heap s dv)) \<noteq> None"
    by (auto simp: FindDevice_None_iff)
  then obtain d where d: "FindDevice s (Address (heap s dv)) = Some d" by auto
  have n: "next_source_id s \<noteq> 0"
    using reachable_inv[OF assms] by (simp add: session_inv_def)
  from h have g: "p2p_device s \<noteq> None" "current_device s = None" "device = Some dv"
    by auto
  have "Connect True device s =
          Inr (True,
            s\<lparr>current_device := Some d,
              heap := (heap s)(d := (heap s d)\<lparr>State := kAssociation\<rparr>),
              trace := trace s @
                [P2P_StopFind, P2P_Connect (ObjectPath (heap s d))] @
                (if delegate s then [Delegate_OnDeviceStateChanged d] else []),
              connect_timeout := next_source_id s,
              timeout_sources := timeout_sources s @ [next_source_id s],
              next_source_id := Suc (next_source_id s)\<rparr>)"
    unfolding Connect_accepted[OF g d]
    by (simp add: Let_def emit_def SetState_def StartConnectTimeout_def)
  with FindDevice_Some[OF d] n
  show "\<exists>d. d \<in> snd ` set (devices s) \<and> Address (heap s d) = Address (heap s dv) \<and>
            next_source_id s \<noteq> 0 \<and>
            Connect True device s =
              Inr (True,
                s\<lparr>current_device := Some d,
                  heap := (heap s)(d := (heap s d)\<lparr>State := kAssociation\<rparr>),
                  trace := trace s @
                    [P2P_StopFind, P2P_Connect (ObjectPath (heap s d))] @
                    (if delegate s then [Delegate_OnDeviceStateChanged d] else []),
                  connect_timeout := next_source_id s,
                  timeout_sources := timeout_sources s @ [next_source_id s],
                  next_source_id := Suc (next_source_id s)\<rparr>)"
    by blast
qed

theorem C3_Connect_contract_witness:
  "Connect True (Some 0) st_ready = Inr (True, st_association) \<and>
   Connect True (Some 0) st_association = Inr (False, st_association) \<and>
   Connect True None st_ready = Inr (False, st_ready) \<and>
   Connect True (Some 5) st_ready = Inr (False, st_ready)"
proof -
  note c1 = C3_Connect_contract[OF reachable_ready, of "Some 0" True]
  note c2 = C3_Connect_contract[OF reachable_association, of "Some 0" True]
  note c3 = C3_Connect_contract[OF reachable_ready, of None True]
  note c4 = C3_Connect_contract[OF reachable_ready, of "Some 5" True]
  have "Connect True (Some 0) st_ready = Inr (True, st_association)"
    using c1
    by (simp add: st_association_def st_ready_def peer1_def NetworkManager_new_def)
  moreover have "Connect True (Some 0) st_association = Inr (False, st_association)"
    using c2 by (simp add: st_association_def)
  moreover have "Connect True None st_ready = Inr (False, st_ready)"
    using c3 by simp
  moreover have "Connect True (Some 5) st_ready = Inr (False, st_ready)"
    using c4
    by (simp add: st_ready_def peer1_def NetworkManager_new_def NetworkDevice_Create_def)
  ultimately show ?thesis by simp
qed

subsection \<open>C4: when the connect timeout is armed\<close>




subsection \<open>C5: the advertised device type\<close>

text \<open>
  C5 says that \<^verbatim>\<open>GenerateWfdDeviceType\<close> returns PrimarySink for Sink without Source,
  Source for Source without Sink, DualRole for both and Undefined for neither. The three
  assigning branches are as claimed (lemma \<open>GenerateWfdDeviceType_cases\<close>). With
  neither capability no branch assigns the local \<^verbatim>\<open>device_type\<close>, which has no
  initialiser: the function returns the unassigned local, not a value Undefined. The
  capability list is empty from construction until \<^verbatim>\<open>SetCapabilities\<close> is called.
\<close>

theorem C5_GenerateWfdDeviceType_no_capability:
  "GenerateWfdDeviceType (s\<lparr>capabilities := []\<rparr>) = None"
  by (simp add: GenerateWfdDeviceType_def)

subsection \<open>C6: the group-finished event\<close>

text \<open>
  C6: the group-finished event changes nothing when there is no current device. Otherwise
  it cancels the connect timeout, releases the DHCP client and server and both group
  handles, and moves the device to Disconnected, all of which is done in the state \<open>s6\<close>
  that still has the current device; clearing \<^verbatim>\<open>current_device_\<close> is the last step.
\<close>

theorem C6_OnGroupFinished_contract:
  assumes "reachable s"
  shows "(current_device s = None \<longrightarrow> OnGroupFinished s = Inr s) \<and>
         (\<forall>r. current_device s = Some r \<longrightarrow>
            (\<exists>s6. connect_timeout s6 = 0 \<and>
                  (connect_timeout s \<noteq> 0 \<longrightarrow> connect_timeout s \<notin> set (timeout_sources s6)) \<and>
                  dhcp_client s6 = None \<and> dhcp_server s6 = None \<and>
                  current_group_iface s6 = None \<and> current_group_device s6 = None \<and>
                  current_device s6 = Some r \<and> State (heap s6 r) = kDisconnected \<and>
                  OnGroupFinished s = Inr (s6\<lparr>current_device := None\<rparr>)))"
proof (intro conjI allI impI)
  assume "current_device s = None"
  then show "OnGroupFinished s = Inr s" by (simp add: OnGroupFinished_def)
next
  fix r assume r: "current_device s = Some r"
  with reachable_interfaces(2)[OF assms] have "mgmt_interface s \<noteq> None" by simp
  from OnGroupFinished_current[OF r this]
  show "\<exists>s6. connect_timeout s6 = 0 \<and>
              (connect_timeout s \<noteq> 0 \<longrightarrow> connect_timeout s \<notin> set (timeout_sources s6)) \<and>
              dhcp_client s6 = None \<and> dhcp_server s6 = None \<and>
              current_group_iface s6 = None \<and> current_group_device s6 = None \<and>
              current_device s6 = Some r \<and> State (heap s6 r) = kDisconnected \<and>
              OnGroupFinished s = Inr (s6\<lparr>current_device := None\<rparr>)" .
qed

theorem C6_OnGroupFinished_contract_witness:
  "OnGroupFinished st_ready = Inr st_ready \<and>
   OnGroupFinished st_configuration = Inr st_finished \<and>
   current_device st_finished = None \<and> State (heap st_finished 0) = kDisconnected \<and>
   current_group_device st_finished = None \<and> current_group_iface st_finished = None \<and>
   dhcp_client st_finished = None \<and> dhcp_server st_finished = None \<and>
   connect_timeout st_finished = 0"
proof -
  have "current_device st_ready = None" "current_device st_configuration = Some 0"
    by (simp_all add: st_configuration_def st_association_def st_ready_def NetworkManager_new_def)
  with C6_OnGroupFinished_contract[OF reachable_ready]
       C6_OnGroupFinished_contract[OF reachable_configuration]
  have "OnGroupFinished st_ready = Inr st_ready"
    and "\<exists>s6. State (heap s6 0) = kDisconnected \<and>
              OnGroupFinished st_configuration = Inr (s6\<lparr>current_device := None\<rparr>)"
    by blast+
  with handle_finished show ?thesis
    by (simp add: st_finished_def st_configuration_def st_association_def st_ready_def
          NetworkManager_new_def)
qed

subsection \<open>C7: the DHCP address-assigned event\<close>

text \<open>
  C7: the DHCP address-assigned event changes nothing unless the current device exists and
  is in Configuration. When it applies, the remote address becomes the device's IP address,
  the connect timeout is cancelled and the device moves to Connected.
\<close>

theorem C7_OnDhcpAddressAssigned_contract:
  "(\<not> (\<exists>r. current_device s = Some r \<and> State (heap s r) = kConfiguration) \<longrightarrow>
      OnDhcpAddressAssigned local_address remote_address s = Inr s) \<and>
   (\<forall>r. current_device s = Some r \<and> State (heap s r) = kConfiguration \<longrightarrow>
      (\<exists>s'. OnDhcpAddressAssigned local_address remote_address s = Inr s' \<and>
            IpV4Address (heap s' r) = remote_address \<and>
            State (heap s' r) = kConnected \<and>
            connect_timeout s' = 0 \<and>
            (connect_timeout s \<noteq> 0 \<longrightarrow> connect_timeout s \<notin> set (timeout_sources s')) \<and>
            current_device s' = Some r))"
proof (intro conjI allI impI)
  assume "\<not> (\<exists>r. current_device s = Some r \<and> State (heap s r) = kConfiguration)"
  then show "OnDhcpAddressAssigned local_address remote_address s = Inr s"
    by (auto simp: OnDhcpAddressAssigned_def split: option.splits)
next
  fix r assume r: "current_device s = Some r \<and> State (heap s r) = kConfiguration"
  let ?s2 = "StopConnectTimeout
               (s\<lparr>heap := (heap s)(r := (heap s r)\<lparr>IpV4Address := remote_address\<rparr>)\<rparr>)"
  obtain s' where a: "AdvanceDeviceState (Some r) kConnected ?s2 = Inr s'"
    using AdvanceDeviceState_total[of kConnected ?s2 r] by auto
  from AdvanceDeviceState_shape[OF a] obtain sa tr where
    s': "s' = ?s2\<lparr>heap := (heap ?s2)(r := (heap ?s2 r)\<lparr>State := kConnected\<rparr>),
                  session_available := sa, trace := tr\<rparr>"
    by auto
  have "OnDhcpAddressAssigned local_address remote_address s = Inr s'"
    using r a by (simp add: OnDhcpAddressAssigned_def Let_def)
  moreover have "connect_timeout s \<noteq> 0 \<longrightarrow> connect_timeout s \<notin> set (timeout_sources s')"
    unfolding s' by (simp add: StopConnectTimeout_def)
  moreover have "IpV4Address (heap s' r) = remote_address" "State (heap s' r) = kConnected"
    "connect_timeout s' = 0" "current_device s' = Some r"
    using r unfolding s' by simp_all
  ultimately show "\<exists>s'. OnDhcpAddressAssigned local_address remote_address s = Inr s' \<and>
            IpV4Address (heap s' r) = remote_address \<and>
            State (heap s' r) = kConnected \<and>
            connect_timeout s' = 0 \<and>
            (connect_timeout s \<noteq> 0 \<longrightarrow> connect_timeout s \<notin> set (timeout_sources s')) \<and>
            current_device s' = Some r"
    by blast
qed

theorem C7_OnDhcpAddressAssigned_contract_witness:
  "OnDhcpAddressAssigned ''10.0.0.1'' ''10.0.0.2'' st_association = Inr st_association \<and>
   OnDhcpAddressAssigned ''10.0.0.1'' ''10.0.0.2'' st_configuration = Inr st_connected \<and>
   IpV4Address (heap st_connected 0) = ''10.0.0.2'' \<and>
   State (heap st_connected 0) = kConnected \<and> connect_timeout st_connected = 0"
proof -
  have a: "\<not> (\<exists>r. current_device st_association = Some r \<and>
                   State (heap st_association r) = kConfiguration)"
    and c: "current_device st_configuration = Some 0 \<and>
            State (heap st_configuration 0) = kConfiguration"
    by (simp_all add: st_configuration_def st_association_def st_ready_def peer1_def)
  from C7_OnDhcpAddressAssigned_contract[of st_association "''10.0.0.1''" "''10.0.0.2''"] a
       C7_OnDhcpAddressAssigned_contract[of st_configuration "''10.0.0.1''" "''10.0.0.2''"] c
  have "OnDhcpAddressAssigned ''10.0.0.1'' ''10.0.0.2'' st_association = Inr st_association"
    and "\<exists>s'. OnDhcpAddressAssigned ''10.0.0.1'' ''10.0.0.2'' st_configuration = Inr s' \<and>
              State (heap s' 0) = kConnected"
    by blast+
  with handle_connected show ?thesis
    by (simp add: st_connected_def st_configuration_def st_association_def st_ready_def)
qed

subsection \<open>C8: Disconnect twice\<close>

text \<open>
  As worded, C8 gives a second \<^verbatim>\<open>Disconnect\<close> in succession no effect beyond the first.
  In \<open>st_configuration\<close> the second call passes the guard again, since the current device
  is cleared by the group-finished event only, returns true and sends a second disconnect
  request to the group.
\<close>

theorem C8_Disconnect_twice_counterexample:
  "reachable st_configuration \<and>
   Disconnect (Some 0) st_configuration =
     Inr (True, emit (Group_Disconnect ''/iface/1'') st_configuration) \<and>
   Disconnect (Some 0) (emit (Group_Disconnect ''/iface/1'') st_configuration) =
     Inr (True, emit (Group_Disconnect ''/iface/1'')
                  (emit (Group_Disconnect ''/iface/1'') st_configuration)) \<and>
   trace (emit (Group_Disconnect ''/iface/1'')
            (emit (Group_Disconnect ''/iface/1'') st_configuration)) \<noteq>
   trace (emit (Group_Disconnect ''/iface/1'') st_configuration)"
  using reachable_configuration
  by (simp add: Disconnect_result st_configuration_def st_association_def st_ready_def
        peer1_def NetworkManager_new_def FindDevice_def)

text \<open>
  C8 (amended): \<^verbatim>\<open>Disconnect\<close> changes no member of the manager and no device: a call that
  returns false changes nothing, a call that returns true only sends a disconnect request
  to the group, and a second call in succession sends the request again. Once the
  group-finished event has cleared \<^verbatim>\<open>current_device_\<close>, \<^verbatim>\<open>Disconnect\<close> fails its
  precondition check and changes nothing. The transition to Disconnected happens in the
  group-finished handler, not within \<^verbatim>\<open>Disconnect\<close>.
\<close>

theorem C8_Disconnect_requests_only:
  assumes "reachable s"
  shows "(\<forall>s'. Disconnect device s = Inr (False, s') \<longrightarrow> s' = s) \<and>
         (\<forall>s'. Disconnect device s = Inr (True, s') \<longrightarrow>
            (\<exists>g. current_group_device s = Some g \<and> s' = emit (Group_Disconnect g) s \<and>
                 Disconnect device s' = Inr (True, emit (Group_Disconnect g) s'))) \<and>
         (current_device s = None \<longrightarrow> Disconnect device s = Inr (False, s)) \<and>
         (\<forall>r. current_device s = Some r \<longrightarrow>
            (\<exists>s1. OnGroupFinished s = Inr s1 \<and> State (heap s1 r) = kDisconnected \<and>
                  current_device s1 = None \<and> Disconnect device s1 = Inr (False, s1)))"
proof (intro conjI allI impI)
  fix s' assume "Disconnect device s = Inr (False, s')"
  then show "s' = s" by (auto simp: Disconnect_result split: if_splits)
next
  fix s' assume d: "Disconnect device s = Inr (True, s')"
  then obtain g where g: "current_group_device s = Some g"
    by (auto simp: Disconnect_result split: if_splits)
  with d have s': "s' = emit (Group_Disconnect g) s"
    by (auto simp: Disconnect_result split: if_splits)
  from d g have "Disconnect device s' = Inr (True, emit (Group_Disconnect g) s')"
    unfolding s' by (auto simp: Disconnect_result split: if_splits)
  with g s' show "\<exists>g. current_group_device s = Some g \<and> s' = emit (Group_Disconnect g) s \<and>
                      Disconnect device s' = Inr (True, emit (Group_Disconnect g) s')"
    by blast
next
  assume "current_device s = None"
  then show "Disconnect device s = Inr (False, s)" by (simp add: Disconnect_result)
next
  fix r assume r: "current_device s = Some r"
  with reachable_interfaces(2)[OF assms] have "mgmt_interface s \<noteq> None" by simp
  from OnGroupFinished_current[OF r this] obtain s6 where
    s6: "State (heap s6 r) = kDisconnected" "OnGroupFinished s = Inr (s6\<lparr>current_device := None\<rparr>)"
    by blast
  have "Disconnect device (s6\<lparr>current_device := None\<rparr>) = Inr (False, s6\<lparr>current_device := None\<rparr>)"
    by (simp add: Disconnect_result)
  with s6 show "\<exists>s1. OnGroupFinished s = Inr s1 \<and> State (heap s1 r) = kDisconnected \<and>
                     current_device s1 = None \<and> Disconnect device s1 = Inr (False, s1)"
    by (intro exI[of _ "s6\<lparr>current_device := None\<rparr>"]) simp
qed

theorem C8_Disconnect_requests_only_witness:
  "Disconnect (Some 0) st_connected =
     Inr (True, emit (Group_Disconnect ''/iface/1'') st_connected) \<and>
   State (heap (emit (Group_Disconnect ''/iface/1'') st_connected) 0) = kConnected \<and>
   Disconnect (Some 0) st_finished = Inr (False, st_finished)"
proof -
  have reach: "reachable st_connected" "reachable st_finished"
    using reachable.step[OF reachable_configuration handle_connected]
          reachable.step[OF reachable_configuration handle_finished] .
  have d: "Disconnect (Some 0) st_connected =
             Inr (True, emit (Group_Disconnect ''/iface/1'') st_connected)"
    by (simp add: Disconnect_result st_connected_def st_configuration_def st_association_def
          st_ready_def peer1_def NetworkManager_new_def FindDevice_def)
  have n: "current_device st_finished = None"
    by (simp add: st_finished_def)
  from C8_Disconnect_requests_only[OF reach(1), of "Some 0"] d
       C8_Disconnect_requests_only[OF reach(2), of "Some 0"] n
  show ?thesis
    by (simp add: st_connected_def)
qed

subsection \<open>C9: null dereferences in Disconnect\<close>




subsection \<open>C10: a connect request that the P2P layer rejects\<close>




end
